theory Spec2Isabelle
  imports Complex_Main
begin

section \<open>JavaScript values\<close>

text \<open>
  The values that travel through the client: call arguments, \<open>params\<close>, \<open>result\<close> and
  \<open>data\<close> are of TypeScript type \<open>any\<close>. They are modelled as the tree of values that
  \<open>JSON.stringify\<close> can see. A \<open>number\<close> is a rational: every finite double is one, and
  the comparisons the code makes on numbers (\<open>\<le>\<close>, \<open>===\<close>, the test against zero) are
  those of the rationals. \<open>NaN\<close> and the infinities are left out: they fail every range
  test of the code as a number outside the range does, and JSON text cannot carry them.
\<close>

type_synonym number = rat

datatype jsval =
    JUndefined
  | JNull
  | JBool bool
  | JNum number
  | JStr string
  | JArr "jsval list"
  | JObj "(string \<times> jsval) list"

text \<open>The \<open>typeof\<close> operator: \<open>null\<close> and arrays are of type \<open>object\<close>.\<close>

fun typeof :: "jsval \<Rightarrow> string" where
  "typeof JUndefined = ''undefined''"
| "typeof JNull = ''object''"
| "typeof (JBool b) = ''boolean''"
| "typeof (JNum n) = ''number''"
| "typeof (JStr s) = ''string''"
| "typeof (JArr xs) = ''object''"
| "typeof (JObj kvs) = ''object''"

fun isArray :: "jsval \<Rightarrow> bool" where
  "isArray (JArr xs) = True"
| "isArray v = False"

section \<open>Envelope codec: \<open>extractParams\<close>\<close>

text \<open>
  \<^verbatim>\<open>
  const extractParams = (params: any[]) => {
    if (params.length === 0) { return undefined; }
    if (params.length === 1 && typeof params[0] === 'object' && !Array.isArray(params[0])) {
      return params[0];
    }
    return params;
  }
  \<close>
  The index \<open>params[0]\<close> is read only after the length test, so it is in range.
\<close>

definition extractParams :: "jsval list \<Rightarrow> jsval" where
  "extractParams params =
     (if length params = 0 then JUndefined
      else if length params = 1 \<and> typeof (params ! 0) = ''object'' \<and> \<not> isArray (params ! 0)
        then params ! 0
      else JArr params)"

text \<open>A structured value that is not an array: an object.\<close>

fun isPlainObject :: "jsval \<Rightarrow> bool" where
  "isPlainObject (JObj kvs) = True"
| "isPlainObject v = False"


section \<open>Error model\<close>

subsection \<open>\<open>RPCErrorCode\<close>\<close>

text \<open>
  \<^verbatim>\<open>
  export enum RPCErrorCode {
    ParseError = -32700, InvalidRequest = -32600, MethodNotFound = -32601,
    InvalidParams = -32602, InternalError = -32603,
  }
  \<close>
  A numeric enum is an object with both directions: \<open>RPCErrorCode.MethodNotFound\<close> is the
  number, and \<open>RPCErrorCode[n]\<close> is the member's name, or \<open>undefined\<close> for a number that is
  no member.
\<close>

datatype RPCErrorCode = ParseError | InvalidRequest | MethodNotFound | InvalidParams | InternalError

fun RPCErrorCode_value :: "RPCErrorCode \<Rightarrow> number" where
  "RPCErrorCode_value ParseError = -32700"
| "RPCErrorCode_value InvalidRequest = -32600"
| "RPCErrorCode_value MethodNotFound = -32601"
| "RPCErrorCode_value InvalidParams = -32602"
| "RPCErrorCode_value InternalError = -32603"

fun RPCErrorCode_symbol :: "RPCErrorCode \<Rightarrow> string" where
  "RPCErrorCode_symbol ParseError = ''ParseError''"
| "RPCErrorCode_symbol InvalidRequest = ''InvalidRequest''"
| "RPCErrorCode_symbol MethodNotFound = ''MethodNotFound''"
| "RPCErrorCode_symbol InvalidParams = ''InvalidParams''"
| "RPCErrorCode_symbol InternalError = ''InternalError''"

definition RPCErrorCode_members :: "RPCErrorCode list" where
  "RPCErrorCode_members = [ParseError, InvalidRequest, MethodNotFound, InvalidParams, InternalError]"

text \<open>The reverse mapping \<open>RPCErrorCode[code]\<close>; \<open>None\<close> is \<open>undefined\<close>.\<close>

definition RPCErrorCode_name :: "number \<Rightarrow> string option" where
  "RPCErrorCode_name c =
     map_option RPCErrorCode_symbol (find (\<lambda>m. RPCErrorCode_value m = c) RPCErrorCode_members)"

subsection \<open>String operations used on the symbolic name\<close>

text \<open>
  \<open>.replace(/([A-Z])/g, ' $1')\<close> puts a space before every letter \<open>A\<close> to \<open>Z\<close>;
  \<open>.trim()\<close> drops the white space at both ends; \<open>.toLowerCase()\<close> is taken on the letters
  \<open>A\<close> to \<open>Z\<close> (the names of the enumeration have no other upper-case letter).
\<close>

definition isUpperAZ :: "char \<Rightarrow> bool" where
  "isUpperAZ c \<longleftrightarrow> (65::nat) \<le> of_char c \<and> of_char c \<le> (90::nat)"

definition isWhiteSpace :: "char \<Rightarrow> bool" where
  "isWhiteSpace c \<longleftrightarrow> (of_char c :: nat) \<in> {9, 10, 11, 12, 13, 32}"

fun spaceBeforeCapitals :: "string \<Rightarrow> string" where
  "spaceBeforeCapitals [] = []"
| "spaceBeforeCapitals (c # cs) =
     (if isUpperAZ c then CHR '' '' # c # spaceBeforeCapitals cs
      else c # spaceBeforeCapitals cs)"

definition trim :: "string \<Rightarrow> string" where
  "trim s = rev (dropWhile isWhiteSpace (rev (dropWhile isWhiteSpace s)))"

definition toLowerCase :: "string \<Rightarrow> string" where
  "toLowerCase s = map (\<lambda>c. if isUpperAZ c then char_of (of_char c + (32::nat)) else c) s"

definition humanize :: "string \<Rightarrow> string" where
  "humanize name = toLowerCase (trim (spaceBeforeCapitals name))"

subsection \<open>\<open>RPCError\<close>\<close>

text \<open>
  An instance of the class \<open>RPCError\<close>; its \<open>name\<close> is always \<open>'RPCError'\<close> and is not
  stored. \<open>data\<close> is \<open>JUndefined\<close> when absent.
\<close>

record RPCError =
  code :: number
  message :: string
  data :: jsval

text \<open>An HTTP status is an integer: a \<open>Response\<close> stores it as an unsigned short.\<close>

record HttpError =
  status :: int
  statusText :: string

text \<open>
  What a rejected call or a \<open>throw\<close> carries: one of the two error classes of this
  library, an error of the platform, or any other error value thrown by the caller's
  hooks or transport.
\<close>

datatype Error =
    AnRPCError RPCError
  | AnHttpError HttpError
  | TypeError
  | SyntaxError
  | RangeError
  | OtherError string

text \<open>
  \<^verbatim>\<open>
  constructor(code: number, message?: string, data?: T) {
    this.name = 'RPCError'
    this.code = code;
    this.message =
      (((code <= -32600 && code >= -32603) || code === -32700) && !message)
      ? RPCErrorCode[code].replace(/([A-Z])/g, ' $1').trim().toLowerCase()
      : (message ?? 'Unknown error');
    this.data = data;
  }
  \<close>
  The parameter \<open>message\<close> is \<open>None\<close> when it is not given; \<open>!message\<close> also holds of the
  empty string. Calling \<open>.replace\<close> on \<open>undefined\<close> throws a \<open>TypeError\<close>: that is what
  happens for a code that passes the range test and is no member of the enumeration.
\<close>

definition notMessage :: "string option \<Rightarrow> bool" where
  "notMessage m \<longleftrightarrow> (case m of None \<Rightarrow> True | Some s \<Rightarrow> s = [])"

definition new_RPCError :: "number \<Rightarrow> string option \<Rightarrow> jsval \<Rightarrow> Error + RPCError" where
  "new_RPCError c m d =
     (if ((c \<le> -32600 \<and> c \<ge> -32603) \<or> c = -32700) \<and> notMessage m
      then (case RPCErrorCode_name c of
              None \<Rightarrow> Inl TypeError
            | Some name \<Rightarrow> Inr \<lparr>code = c, message = humanize name, data = d\<rparr>)
      else Inr \<lparr>code = c,
                message = (case m of None \<Rightarrow> ''Unknown error'' | Some s \<Rightarrow> s),
                data = d\<rparr>)"

text \<open>The five reserved codes of JSON-RPC.\<close>

definition reservedCodes :: "number set" where
  "reservedCodes = {-32700, -32600, -32601, -32602, -32603}"

subsection \<open>\<open>HttpError\<close>\<close>

text \<open>
  \<^verbatim>\<open>
  constructor(status: number, statusText: string) {
    this.name = 'HttpError'; this.status = status; this.statusText = statusText;
    this.message = `${status} ${statusText}`;
  }
  \<close>
  The message is derived from the two fields, so it is a function of the record.
\<close>

fun digits :: "nat \<Rightarrow> string" where
  "digits n =
     (if n < 10 then [char_of (48 + n)]
      else digits (n div 10) @ [char_of (48 + n mod 10)])"

definition decimal :: "int \<Rightarrow> string" where
  "decimal i = (if i < 0 then CHR ''-'' # digits (nat (- i)) else digits (nat i))"

definition new_HttpError :: "int \<Rightarrow> string \<Rightarrow> HttpError" where
  "new_HttpError st txt = \<lparr>HttpError.status = st, HttpError.statusText = txt\<rparr>"

definition HttpError_message :: "HttpError \<Rightarrow> string" where
  "HttpError_message e = decimal (HttpError.status e) @ '' '' @ HttpError.statusText e"

section \<open>Wire data\<close>

text \<open>\<open>type RPCId = string | number | null\<close>\<close>

datatype RPCId = IdNull | IdNum number | IdStr string

text \<open>
  The envelopes. An optional field of type \<open>any\<close> holds \<open>JUndefined\<close> when it is absent
  (reading an absent property gives \<open>undefined\<close>); an optional \<open>id\<close> or \<open>error\<close> is \<open>None\<close>
  when it is absent. The field \<open>id\<close> is written \<open>id'\<close>.
\<close>

record RPCRequest =
  jsonrpc :: string
  "method" :: string
  params :: jsval
  id' :: "RPCId option"

record RPCResponse =
  jsonrpc :: string
  result :: jsval
  error :: "RPCError option"
  id' :: "RPCId option"

text \<open>
  What the body of a response can hold, and what \<open>response.json()\<close> then gives under the
  cast \<open>as RPCResponse\<close>: a response envelope, or one of the two other values the mock
  transport can serialize (a request envelope, a string). Reading \<open>error\<close> or \<open>result\<close>
  of a request envelope or of a string gives \<open>undefined\<close>.
\<close>

datatype JsonBody = ResponseBody RPCResponse | RequestBody RPCRequest | StringBody string

fun errorOf :: "JsonBody \<Rightarrow> RPCError option" where
  "errorOf (ResponseBody r) = error r"
| "errorOf (RequestBody q) = None"
| "errorOf (StringBody s) = None"

fun resultOf :: "JsonBody \<Rightarrow> jsval" where
  "resultOf (ResponseBody r) = result r"
| "resultOf (RequestBody q) = JUndefined"
| "resultOf (StringBody s) = JUndefined"

subsection \<open>JSON text\<close>

text \<open>
  Encoding and decoding JSON text is the platform's work (\<open>JSON.stringify\<close>,
  \<open>JSON.parse\<close>, \<open>Response.json\<close>). A text is modelled by how it was made: \<open>Stringified x\<close>
  is the text \<open>JSON.stringify(x)\<close>, and \<open>PlainText s\<close> is any other string \<open>s\<close>. Decoding
  \<open>Stringified x\<close> gives \<open>x\<close> back as JSON sees it: a member whose value is \<open>undefined\<close>
  is left out of an object, and an \<open>undefined\<close> element of an array becomes \<open>null\<close>.
  What decoding makes of a plain text is a parameter of the model (\<open>None\<close>: the text is
  not JSON and \<open>JSON.parse\<close> throws a \<open>SyntaxError\<close>).
\<close>

datatype 'a json_text = Stringified 'a | PlainText string

fun json_roundtrip :: "jsval \<Rightarrow> jsval" where
  "json_roundtrip (JArr xs) =
     JArr (map (\<lambda>x. if x = JUndefined then JNull else json_roundtrip x) xs)"
| "json_roundtrip (JObj kvs) =
     JObj (filter (\<lambda>kv. snd kv \<noteq> JUndefined) (map (\<lambda>kv. (fst kv, json_roundtrip (snd kv))) kvs))"
| "json_roundtrip v = v"

definition RPCError_roundtrip :: "RPCError \<Rightarrow> RPCError" where
  "RPCError_roundtrip e = e\<lparr>data := json_roundtrip (data e)\<rparr>"

definition RPCRequest_roundtrip :: "RPCRequest \<Rightarrow> RPCRequest" where
  "RPCRequest_roundtrip r = r\<lparr>params := json_roundtrip (params r)\<rparr>"

definition RPCResponse_roundtrip :: "RPCResponse \<Rightarrow> RPCResponse" where
  "RPCResponse_roundtrip r =
     r\<lparr>result := json_roundtrip (result r), error := map_option RPCError_roundtrip (error r)\<rparr>"

fun JsonBody_roundtrip :: "JsonBody \<Rightarrow> JsonBody" where
  "JsonBody_roundtrip (ResponseBody r) = ResponseBody (RPCResponse_roundtrip r)"
| "JsonBody_roundtrip (RequestBody q) = RequestBody (RPCRequest_roundtrip q)"
| "JsonBody_roundtrip (StringBody s) = StringBody s"

text \<open>
  The platform: decoding of plain text as a request and as a response, and the \<open>URL\<close>
  constructor (\<open>None\<close>: the string is no valid URL and \<open>new URL\<close> throws a \<open>TypeError\<close>;
  otherwise the serialized URL).
\<close>

record platform =
  parse_request_text :: "string \<Rightarrow> RPCRequest option"
  parse_response_text :: "string \<Rightarrow> JsonBody option"
  new_URL :: "string \<Rightarrow> string option"

definition JSON_parse :: "(string \<Rightarrow> 'a option) \<Rightarrow> ('a \<Rightarrow> 'a) \<Rightarrow> 'a json_text \<Rightarrow> Error + 'a" where
  "JSON_parse parse_text roundtrip t =
     (case t of
        Stringified x \<Rightarrow> Inr (roundtrip x)
      | PlainText s \<Rightarrow> (case parse_text s of None \<Rightarrow> Inl SyntaxError | Some x \<Rightarrow> Inr x))"

section \<open>Transport interface\<close>

text \<open>
  \<open>RequestInit\<close> with the members this library sets; an absent member is \<open>None\<close>.
\<close>

record RequestInit =
  headers :: "(string \<times> string) list option"
  "method" :: "string option"
  body :: "RPCRequest json_text option"

text \<open>The object spread \<open>{...a, ...b}\<close>: a member of \<open>b\<close> replaces that of \<open>a\<close>.\<close>

definition spread :: "RequestInit \<Rightarrow> RequestInit \<Rightarrow> RequestInit" where
  "spread a b =
     \<lparr>headers = (case headers b of None \<Rightarrow> headers a | Some h \<Rightarrow> Some h),
      method = (case RequestInit.method b of None \<Rightarrow> RequestInit.method a | Some m \<Rightarrow> Some m),
      body = (case body b of None \<Rightarrow> body a | Some t \<Rightarrow> Some t)\<rparr>"

text \<open>
  The response-like object of the transport: \<open>ok\<close>, \<open>status\<close>, \<open>statusText\<close> and a
  body that \<open>json()\<close> decodes.
\<close>

record Response =
  ok :: bool
  status :: int
  statusText :: string
  body :: "JsonBody json_text"

definition json :: "platform \<Rightarrow> Response \<Rightarrow> Error + JsonBody" where
  "json pf resp = JSON_parse (parse_response_text pf) JsonBody_roundtrip (Response.body resp)"

text \<open>
  A transport takes the URL and the request options and gives a response or fails
  (it throws, or its promise rejects: both are caught by the same \<open>try\<close>).
\<close>

type_synonym transport = "string \<Rightarrow> RequestInit \<Rightarrow> Error + Response"

section \<open>Request pipeline: \<open>createFetch\<close>\<close>

record RequestContext =
  url :: string
  request :: RequestInit

record ResponseContext =
  rpcResponse :: JsonBody
  response :: Response
  data :: jsval

text \<open>
  \<open>options.options\<close>: the three hooks and the id generator. A hook is a function of the
  caller and may throw (\<open>Inl\<close>) instead of returning. \<open>idGenerator\<close> is \<open>None\<close> when it is
  absent or \<open>false\<close>.
\<close>

record Hooks =
  beforeFetch :: "(RequestContext \<Rightarrow> Error + RequestContext) option"
  onResponse :: "(ResponseContext \<Rightarrow> Error + ResponseContext) option"
  onError :: "(Error \<Rightarrow> Error + Error) option"
  idGenerator :: "(unit \<Rightarrow> Error + RPCId) option"

record RPCFetchOptions =
  url :: string
  options :: "Hooks option"
  fetchOptions :: "RequestInit option"

text \<open>
  \<open>options.options?.h ?? ((a) => a)\<close>: the configured hook, or the identity when
  \<open>options.options\<close> or the hook is absent.
\<close>

definition hookOr :: "(Hooks \<Rightarrow> ('a \<Rightarrow> Error + 'a) option) \<Rightarrow> RPCFetchOptions \<Rightarrow> 'a \<Rightarrow> Error + 'a" where
  "hookOr h opts =
     (case options opts of
        None \<Rightarrow> Inr
      | Some o' \<Rightarrow> (case h o' of None \<Rightarrow> Inr | Some f \<Rightarrow> f))"

text \<open>
  \<^verbatim>\<open>
  const defaultRequestInit = Object.freeze({
    headers: { 'Content-Type': 'application/json' }, method: 'POST' })
  const userRequestInit = Object.freeze({ ...options.fetchOptions })
  const generateRequestInit = () => ({ ...defaultRequestInit, ...userRequestInit })
  \<close>
\<close>

definition emptyRequestInit :: RequestInit where
  "emptyRequestInit = \<lparr>headers = None, method = None, body = None\<rparr>"

definition defaultRequestInit :: RequestInit where
  "defaultRequestInit =
     \<lparr>headers = Some [(''Content-Type'', ''application/json'')], method = Some ''POST'', body = None\<rparr>"

definition userRequestInit :: "RPCFetchOptions \<Rightarrow> RequestInit" where
  "userRequestInit opts =
     (case fetchOptions opts of None \<Rightarrow> emptyRequestInit | Some f \<Rightarrow> spread emptyRequestInit f)"

definition generateRequestInit :: "RPCFetchOptions \<Rightarrow> RequestInit" where
  "generateRequestInit opts = spread defaultRequestInit (userRequestInit opts)"

text \<open>
  What one call does that can be observed from outside: the three hook stages (the
  configured hook or its identity default is applied), the transport, and the decoding
  of the response body.
\<close>

datatype event = CallBeforeFetch | CallFetch | CallJson | CallOnResponse | CallOnError

text \<open>
  How a call ends: \<open>request\<close> itself throws before it has made its promise; the promise
  resolves; the promise rejects; or the promise is never settled (the \<open>catch\<close> block
  itself throws, inside the \<open>async\<close> executor, whose own promise nobody reads).
\<close>

datatype outcome =
    Throws Error
  | Resolves ResponseContext
  | Rejects Error
  | NeverSettles

text \<open>
  \<^verbatim>\<open>
  } catch (e) {
    reject((options.options?.onError ?? ((a: Error) => a))(e as Error));
  }
  \<close>
\<close>

definition catchBlock :: "RPCFetchOptions \<Rightarrow> Error \<Rightarrow> outcome \<times> event list" where
  "catchBlock opts e =
     (case hookOr onError opts e of
        Inl thrown \<Rightarrow> (NeverSettles, [CallOnError])
      | Inr e' \<Rightarrow> (Rejects e', [CallOnError]))"

text \<open>Events that happened before are put in front of what a later step reports.\<close>

definition after :: "event list \<Rightarrow> outcome \<times> event list \<Rightarrow> outcome \<times> event list" where
  "after evs r = (fst r, evs @ snd r)"

text \<open>
  The executor of the promise, lines 126 to 155:
  \<^verbatim>\<open>
  try {
    const response = await fetch_(url, request)
    if (!response.ok) {
      reject(new HttpError(response.status, response.statusText));
      return;
    }
    const rpcResponse = await response.json() as RPCResponse<TResult, TError>;
    const result = { rpcResponse, response } as ResponseContext<TResult>;
    if (rpcResponse.error) {
      throw new RPCError(rpcResponse.error.code, rpcResponse.error.message, rpcResponse.error.data);
    } else {
      result.data = rpcResponse.result;
    }
    resolve((options.options?.onResponse ?? ((a) => a))(result));
  } catch (e) { ... }
  \<close>
\<close>

definition executor ::
  "platform \<Rightarrow> RPCFetchOptions \<Rightarrow> transport \<Rightarrow> RequestContext \<Rightarrow> outcome \<times> event list" where
  "executor pf opts fetch' ctx =
     (case fetch' (RequestContext.url ctx) (RequestContext.request ctx) of
        Inl e \<Rightarrow> after [CallFetch] (catchBlock opts e)
      | Inr resp \<Rightarrow>
          if \<not> ok resp then
            (Rejects (AnHttpError (new_HttpError (Response.status resp) (Response.statusText resp))),
             [CallFetch])
          else
            (case json pf resp of
               Inl e \<Rightarrow> after [CallFetch, CallJson] (catchBlock opts e)
             | Inr rpcResp \<Rightarrow>
                 (case errorOf rpcResp of
                    Some err \<Rightarrow>
                      (case new_RPCError (code err) (Some (message err)) (RPCError.data err) of
                         Inl e \<Rightarrow> after [CallFetch, CallJson] (catchBlock opts e)
                       | Inr rpcError \<Rightarrow>
                           after [CallFetch, CallJson] (catchBlock opts (AnRPCError rpcError)))
                  | None \<Rightarrow>
                      (case hookOr onResponse opts
                              \<lparr>rpcResponse = rpcResp, response = resp,
                               ResponseContext.data = resultOf rpcResp\<rparr> of
                         Inl e \<Rightarrow> after [CallFetch, CallJson, CallOnResponse] (catchBlock opts e)
                       | Inr context \<Rightarrow> (Resolves context, [CallFetch, CallJson, CallOnResponse])))))"

text \<open>
  \<open>request\<close>, lines 110 to 156. Before the promise is made: the id, the envelope, the
  request options with the serialized envelope as body, the URL, and the before-send hook.
  \<^verbatim>\<open>
  const id = options.options?.idGenerator ? options.options.idGenerator() : null;
  const body: RPCRequest = { jsonrpc: '2.0', method, params: extractParams(params), id }
  const preRequestInit = generateRequestInit();
  preRequestInit.body = JSON.stringify(body);
  const {url, request} = (options.options?.beforeFetch ?? ((a: RequestContext) => a))({
    url: new URL(options.url.toString()),
    request: preRequestInit,
  });
  return new Promise<ResponseContext<TResult>>(async (resolve, reject) => { ... });
  \<close>
\<close>

definition generateId :: "RPCFetchOptions \<Rightarrow> Error + RPCId" where
  "generateId opts =
     (case options opts of
        None \<Rightarrow> Inr IdNull
      | Some o' \<Rightarrow> (case idGenerator o' of None \<Rightarrow> Inr IdNull | Some g \<Rightarrow> g ()))"

definition envelope :: "string \<Rightarrow> jsval list \<Rightarrow> RPCId \<Rightarrow> RPCRequest" where
  "envelope m ps i =
     \<lparr>RPCRequest.jsonrpc = ''2.0'', RPCRequest.method = m, params = extractParams ps,
      RPCRequest.id' = Some i\<rparr>"

definition preRequestInit :: "RPCFetchOptions \<Rightarrow> RPCRequest \<Rightarrow> RequestInit" where
  "preRequestInit opts b = (generateRequestInit opts)\<lparr>RequestInit.body := Some (Stringified b)\<rparr>"

text \<open>
  The statements before \<open>return new Promise\<close>: they give the url and the request options
  that the transport is called with, or throw.
\<close>

definition requestContext ::
  "platform \<Rightarrow> RPCFetchOptions \<Rightarrow> string \<Rightarrow> jsval list \<Rightarrow> (Error + RequestContext) \<times> event list" where
  "requestContext pf opts m ps =
     (case generateId opts of
        Inl e \<Rightarrow> (Inl e, [])
      | Inr i \<Rightarrow>
          (case new_URL pf (RPCFetchOptions.url opts) of
             None \<Rightarrow> (Inl TypeError, [])
           | Some u \<Rightarrow>
               (hookOr beforeFetch opts
                  \<lparr>RequestContext.url = u,
                   RequestContext.request = preRequestInit opts (envelope m ps i)\<rparr>,
                [CallBeforeFetch])))"

definition request ::
  "platform \<Rightarrow> RPCFetchOptions \<Rightarrow> transport \<Rightarrow> string \<Rightarrow> jsval list \<Rightarrow> outcome \<times> event list" where
  "request pf opts fetch' m ps =
     (case fst (requestContext pf opts m ps) of
        Inl e \<Rightarrow> (Throws e, snd (requestContext pf opts m ps))
      | Inr ctx \<Rightarrow> after (snd (requestContext pf opts m ps)) (executor pf opts fetch' ctx))"

section \<open>Mock transport: \<open>createMockFetch\<close>\<close>

text \<open>
  \<^verbatim>\<open>
  export const createMockRPCResponse = <TResult = any>(result: TResult) =>
    ({ jsonrpc: '2.0', result, id: null });
  export const createMockRPCErrorResponse = (code, message?, data?) =>
    ({ jsonrpc: '2.0', error: new RPCError(code, message, data), id: null });
  \<close>
\<close>

definition createMockRPCResponse :: "jsval \<Rightarrow> RPCResponse" where
  "createMockRPCResponse r =
     \<lparr>RPCResponse.jsonrpc = ''2.0'', result = r, error = None, RPCResponse.id' = Some IdNull\<rparr>"

definition createMockRPCErrorResponse :: "number \<Rightarrow> string option \<Rightarrow> jsval \<Rightarrow> Error + RPCResponse" where
  "createMockRPCErrorResponse c m d =
     (case new_RPCError c m d of
        Inl e \<Rightarrow> Inl e
      | Inr rpcError \<Rightarrow>
          Inr \<lparr>RPCResponse.jsonrpc = ''2.0'', result = JUndefined, error = Some rpcError,
               RPCResponse.id' = Some IdNull\<rparr>)"

text \<open>
  \<open>type MockRPCAction = (rpcRequest: RPCRequest, request: RequestInit) => RPCResponse | HttpError\<close>;
  a handler may also throw. The table \<open>actions\<close> holds the registered handlers, the own
  properties of the object, by name.
\<close>

datatype ActionResult = ReturnsResponse RPCResponse | ReturnsHttpError HttpError

type_synonym MockRPCAction = "RPCRequest \<Rightarrow> RequestInit \<Rightarrow> Error + ActionResult"

text \<open>
  The lookup \<open>actions[name]\<close> takes an own property first. The code makes no own-property
  test, so for a table that inherits from \<open>Object.prototype\<close>, as every table written as
  an object literal does, the lookup of a name that is not registered finds the member of
  \<open>Object.prototype\<close> of that name, if there is one; only otherwise is it \<open>undefined\<close>.
\<close>

definition ObjectPrototype_members :: "string list" where
  "ObjectPrototype_members =
     [''constructor'', ''__defineGetter__'', ''__defineSetter__'', ''hasOwnProperty'',
      ''__lookupGetter__'', ''__lookupSetter__'', ''isPrototypeOf'', ''propertyIsEnumerable'',
      ''toString'', ''valueOf'', ''__proto__'', ''toLocaleString'']"

datatype Lookup = NotFound | Registered MockRPCAction | Inherited string

definition lookupAction :: "(string \<rightharpoonup> MockRPCAction) \<Rightarrow> string \<Rightarrow> Lookup" where
  "lookupAction actions name =
     (case actions name of
        Some action \<Rightarrow> Registered action
      | None \<Rightarrow> if name \<in> set ObjectPrototype_members then Inherited name else NotFound)"

text \<open>
  An inherited member is truthy, so the code calls it as \<open>action(rpcRequest, request)\<close>,
  with \<open>this\<close> undefined (module code is strict). \<open>Object.prototype.toString\<close> then
  returns the string \<open>[object Undefined]\<close>; \<open>constructor\<close> is the function \<open>Object\<close>, which
  returns its first argument, the request itself; every other member throws a \<open>TypeError\<close>
  (it needs an object as \<open>this\<close>, or, for \<open>__proto__\<close>, is no function).
\<close>

definition callInherited :: "string \<Rightarrow> RPCRequest \<Rightarrow> Error + JsonBody" where
  "callInherited name rpcReq =
     (if name = ''toString'' then Inr (StringBody ''[object Undefined]'')
      else if name = ''constructor'' then Inr (RequestBody rpcReq)
      else Inl TypeError)"

text \<open>
  The constructor \<open>new Response(body, {status, statusText})\<close> of the platform, with a body
  that is not \<open>null\<close>: a status outside 200 to 599 is a \<open>RangeError\<close>; a status text that is
  no reason phrase, or a status that allows no body (204, 205, 304), is a \<open>TypeError\<close>.
  \<open>ok\<close> is true for the statuses 200 to 299. Without options the status is 200 and the
  status text is empty.
\<close>

definition reasonPhrase :: "string \<Rightarrow> bool" where
  "reasonPhrase s \<longleftrightarrow>
     list_all (\<lambda>c. (of_char c :: nat) = 9 \<or> (32 \<le> (of_char c :: nat) \<and> (of_char c :: nat) \<noteq> 127)) s"

definition new_Response :: "JsonBody json_text \<Rightarrow> int \<Rightarrow> string \<Rightarrow> Error + Response" where
  "new_Response b st txt =
     (if st < 200 \<or> 599 < st then Inl RangeError
      else if \<not> reasonPhrase txt then Inl TypeError
      else if st \<in> {204, 205, 304} then Inl TypeError
      else Inr \<lparr>ok = (200 \<le> st \<and> st \<le> 299), Response.status = st, Response.statusText = txt,
                Response.body = b\<rparr>)"

text \<open>Truthiness of \<open>rpcRequest.id\<close>: \<open>undefined\<close>, \<open>null\<close>, \<open>0\<close> and \<open>''\<close> are falsy.\<close>

fun truthyId :: "RPCId option \<Rightarrow> bool" where
  "truthyId None = False"
| "truthyId (Some IdNull) = False"
| "truthyId (Some (IdNum n)) = (n \<noteq> 0)"
| "truthyId (Some (IdStr s)) = (s \<noteq> [])"

text \<open>
  The transport made by \<open>createMockFetch(actions)\<close>, lines 178 to 206. The delay only
  postpones the answer and is left out. A failure (\<open>Inl\<close>) is a rejection of the promise
  of the \<open>async\<close> function. \<open>JSON.parse\<close> of an absent body is a \<open>SyntaxError\<close>.
  \<^verbatim>\<open>
  const rpcRequest = JSON.parse(request!.body as string) as RPCRequest;
  const action = actions[rpcRequest.method];
  if (!action) {
    return new Response(JSON.stringify({
      jsonrpc: '2.0', error: new RPCError(RPCErrorCode.MethodNotFound), id: rpcRequest.id,
    } as RPCResponse))
  }
  const response = action(rpcRequest, request!);
  if (response instanceof HttpError) {
    return new Response(response.message, { status: response.status, statusText: response.statusText });
  }
  if (rpcRequest.id) { response.id = rpcRequest.id; }
  return new Response(JSON.stringify(response), { status: 200, statusText: 'OK', headers: ... });
  \<close>
\<close>

definition parseRequestBody :: "platform \<Rightarrow> RequestInit \<Rightarrow> Error + RPCRequest" where
  "parseRequestBody pf init =
     (case RequestInit.body init of
        None \<Rightarrow> Inl SyntaxError
      | Some t \<Rightarrow> JSON_parse (parse_request_text pf) RPCRequest_roundtrip t)"

definition methodNotFoundResponse :: "RPCRequest \<Rightarrow> Error + RPCResponse" where
  "methodNotFoundResponse rpcReq =
     (case new_RPCError (RPCErrorCode_value MethodNotFound) None JUndefined of
        Inl e \<Rightarrow> Inl e
      | Inr rpcError \<Rightarrow>
          Inr \<lparr>RPCResponse.jsonrpc = ''2.0'', result = JUndefined, error = Some rpcError,
               RPCResponse.id' = RPCRequest.id' rpcReq\<rparr>)"

definition stampId :: "RPCRequest \<Rightarrow> RPCResponse \<Rightarrow> RPCResponse" where
  "stampId rpcReq resp =
     (if truthyId (RPCRequest.id' rpcReq) then resp\<lparr>RPCResponse.id' := RPCRequest.id' rpcReq\<rparr>
      else resp)"

text \<open>
  \<open>if (rpcRequest.id) { response.id = rpcRequest.id; }\<close> on what an inherited member
  returned: setting a property of a string throws a \<open>TypeError\<close> in strict code; the
  request returned by \<open>constructor\<close> is \<open>rpcRequest\<close> itself and keeps its id.
\<close>

fun stampValue :: "RPCRequest \<Rightarrow> JsonBody \<Rightarrow> Error + JsonBody" where
  "stampValue rpcReq (ResponseBody r) = Inr (ResponseBody (stampId rpcReq r))"
| "stampValue rpcReq (RequestBody q) =
     Inr (RequestBody (if truthyId (RPCRequest.id' rpcReq)
                       then q\<lparr>RPCRequest.id' := RPCRequest.id' rpcReq\<rparr> else q))"
| "stampValue rpcReq (StringBody s) =
     (if truthyId (RPCRequest.id' rpcReq) then Inl TypeError else Inr (StringBody s))"

definition createMockFetch :: "platform \<Rightarrow> (string \<rightharpoonup> MockRPCAction) \<Rightarrow> transport" where
  "createMockFetch pf actions u init =
     (case parseRequestBody pf init of
        Inl e \<Rightarrow> Inl e
      | Inr rpcReq \<Rightarrow>
          (case lookupAction actions (RPCRequest.method rpcReq) of
             NotFound \<Rightarrow>
               (case methodNotFoundResponse rpcReq of
                  Inl e \<Rightarrow> Inl e
                | Inr resp \<Rightarrow> new_Response (Stringified (ResponseBody resp)) 200 [])
           | Registered action \<Rightarrow>
               (case action rpcReq init of
                  Inl e \<Rightarrow> Inl e
                | Inr (ReturnsHttpError httpError) \<Rightarrow>
                    new_Response (PlainText (HttpError_message httpError))
                      (HttpError.status httpError) (HttpError.statusText httpError)
                | Inr (ReturnsResponse resp) \<Rightarrow>
                    new_Response (Stringified (ResponseBody (stampId rpcReq resp))) 200 ''OK'')
           | Inherited name \<Rightarrow>
               (case callInherited name rpcReq of
                  Inl e \<Rightarrow> Inl e
                | Inr returned \<Rightarrow>
                    (case stampValue rpcReq returned of
                       Inl e \<Rightarrow> Inl e
                     | Inr stamped \<Rightarrow> new_Response (Stringified stamped) 200 ''OK''))))"

section \<open>Example configurations\<close>

text \<open>
  Concrete platforms, options and transports on which the theorems below are run. The
  example platform decodes no plain text and accepts every URL as it is.
\<close>

definition examplePlatform :: platform where
  "examplePlatform = \<lparr>parse_request_text = (\<lambda>s. None), parse_response_text = (\<lambda>s. None),
     new_URL = (\<lambda>s. Some s)\<rparr>"

definition plainOptions :: RPCFetchOptions where
  "plainOptions = \<lparr>RPCFetchOptions.url = ''http://localhost/rpc'', options = None, fetchOptions = None\<rparr>"

definition serverErrorTransport :: transport where
  "serverErrorTransport u init =
     Inr \<lparr>ok = False, Response.status = 500, Response.statusText = ''Internal Server Error'',
          Response.body = PlainText ''oops''\<rparr>"

definition errorTransport :: transport where
  "errorTransport u init =
     Inr \<lparr>ok = True, Response.status = 200, Response.statusText = ''OK'',
          Response.body = Stringified (ResponseBody
            \<lparr>RPCResponse.jsonrpc = ''2.0'', result = JUndefined,
             error = Some \<lparr>code = -32000, message = ''boom'', RPCError.data = JNum 7\<rparr>,
             RPCResponse.id' = Some IdNull\<rparr>)\<rparr>"

text \<open>
  A transport whose answer carries the error \<open>{code: -32601.5, message: ''}\<close>, and options
  whose on-error hook wraps what it is given.
\<close>

definition fractionalCodeTransport :: transport where
  "fractionalCodeTransport u init =
     Inr \<lparr>ok = True, Response.status = 200, Response.statusText = ''OK'',
          Response.body = Stringified (ResponseBody
            \<lparr>RPCResponse.jsonrpc = ''2.0'', result = JUndefined,
             error = Some \<lparr>code = -65203 / 2, message = [], RPCError.data = JUndefined\<rparr>,
             RPCResponse.id' = Some IdNull\<rparr>)\<rparr>"

fun wrapError :: "Error \<Rightarrow> Error + Error" where
  "wrapError (AnRPCError e) = Inr (OtherError (''wrapped: '' @ message e))"
| "wrapError e = Inr e"

definition wrappingOptions :: RPCFetchOptions where
  "wrappingOptions =
     \<lparr>RPCFetchOptions.url = ''http://localhost/rpc'',
      options = Some \<lparr>beforeFetch = None, onResponse = None, onError = Some wrapError,
                      idGenerator = Some (\<lambda>u. Inr (IdNum 7))\<rparr>,
      fetchOptions = None\<rparr>"

text \<open>Options whose on-response hook throws.\<close>

definition throwingResponseOptions :: RPCFetchOptions where
  "throwingResponseOptions =
     \<lparr>RPCFetchOptions.url = ''http://localhost/rpc'',
      options = Some \<lparr>beforeFetch = None,
                      onResponse = Some (\<lambda>c. Inl (OtherError ''in onResponse'')),
                      onError = None, idGenerator = None\<rparr>,
      fetchOptions = None\<rparr>"

definition resultTransport :: transport where
  "resultTransport u init =
     Inr \<lparr>ok = True, Response.status = 200, Response.statusText = ''OK'',
          Response.body = Stringified (ResponseBody (createMockRPCResponse (JNum 1)))\<rparr>"

text \<open>Options whose before-send hook throws, with an on-error hook that answers.\<close>

definition throwingBeforeOptions :: RPCFetchOptions where
  "throwingBeforeOptions =
     \<lparr>RPCFetchOptions.url = ''http://localhost/rpc'',
      options = Some \<lparr>beforeFetch = Some (\<lambda>c. Inl (OtherError ''in beforeFetch'')),
                      onResponse = None,
                      onError = Some (\<lambda>e. Inr (OtherError ''handled'')), idGenerator = None\<rparr>,
      fetchOptions = None\<rparr>"

text \<open>A table of handlers with one method, \<open>echo\<close>, that answers \<open>{x: 1}\<close>.\<close>

definition echoActions :: "string \<rightharpoonup> MockRPCAction" where
  "echoActions =
     [''echo'' \<mapsto> (\<lambda>rpcReq init. Inr (ReturnsResponse (createMockRPCResponse (JObj [(''x'', JNum 1)]))))]"

text \<open>
  The reading of the hook-order claim on the events of one call: before-send is seen
  before the transport; from the transport on, exactly one of on-response and on-error
  is seen; no hook is seen twice.
\<close>

definition hookOrderClaimed :: "event list \<Rightarrow> bool" where
  "hookOrderClaimed tr \<longleftrightarrow>
     (CallFetch \<in> set tr \<longrightarrow> CallBeforeFetch \<in> set (takeWhile (\<lambda>e. e \<noteq> CallFetch) tr))
     \<and> (CallFetch \<in> set tr \<longrightarrow>
          count_list (dropWhile (\<lambda>e. e \<noteq> CallFetch) tr) CallOnResponse
            + count_list (dropWhile (\<lambda>e. e \<noteq> CallFetch) tr) CallOnError = 1)
     \<and> count_list tr CallBeforeFetch \<le> 1 \<and> count_list tr CallOnResponse \<le> 1
     \<and> count_list tr CallOnError \<le> 1"

section \<open>Properties of the envelope codec\<close>

lemma typeof_object_iff:
  "typeof v = ''object'' \<longleftrightarrow> v = JNull \<or> isArray v \<or> isPlainObject v"
  by (cases v) simp_all








section \<open>Properties of the error model\<close>

lemma RPCErrorCode_name_reserved:
  "RPCErrorCode_name (-32700) = Some ''ParseError''"
  "RPCErrorCode_name (-32600) = Some ''InvalidRequest''"
  "RPCErrorCode_name (-32601) = Some ''MethodNotFound''"
  "RPCErrorCode_name (-32602) = Some ''InvalidParams''"
  "RPCErrorCode_name (-32603) = Some ''InternalError''"
  by (simp_all add: RPCErrorCode_name_def RPCErrorCode_members_def)

lemma RPCErrorCode_name_other: "c \<notin> reservedCodes \<Longrightarrow> RPCErrorCode_name c = None"
  by (simp add: RPCErrorCode_name_def RPCErrorCode_members_def reservedCodes_def)

lemma humanize_names:
  "humanize ''ParseError'' = ''parse error''"
  "humanize ''InvalidRequest'' = ''invalid request''"
  "humanize ''MethodNotFound'' = ''method not found''"
  "humanize ''InvalidParams'' = ''invalid params''"
  "humanize ''InternalError'' = ''internal error''"
  by code_simp+

lemma reserved_passes_test:
  "c \<in> reservedCodes \<Longrightarrow> (c \<le> -32600 \<and> c \<ge> -32603) \<or> c = -32700"
  by (auto simp: reservedCodes_def)

text \<open>
  For the five reserved codes, and for every code that fails the range test, the
  constructor does what the specification says of a missing message.
\<close>

lemma new_RPCError_default_message:
  assumes "c \<in> reservedCodes \<or> \<not> (c \<le> -32600 \<and> c \<ge> -32603)"
  shows "new_RPCError c None d =
     Inr \<lparr>code = c,
          message =
            (if c = -32700 then ''parse error''
             else if c = -32600 then ''invalid request''
             else if c = -32601 then ''method not found''
             else if c = -32602 then ''invalid params''
             else if c = -32603 then ''internal error''
             else ''Unknown error''),
          RPCError.data = d\<rparr>"
proof (cases "c \<in> reservedCodes")
  case True
  then consider "c = -32700" | "c = -32600" | "c = -32601" | "c = -32602" | "c = -32603"
    by (auto simp: reservedCodes_def)
  then show ?thesis
    by cases (simp_all add: new_RPCError_def notMessage_def RPCErrorCode_name_reserved humanize_names)
next
  case False
  with assms have out: "\<not> (c \<le> -32600 \<and> c \<ge> -32603)"
    by simp
  from False have "c \<noteq> -32700" "c \<noteq> -32600" "c \<noteq> -32601" "c \<noteq> -32602" "c \<noteq> -32603"
    by (auto simp: reservedCodes_def)
  with out show ?thesis
    by (auto simp: new_RPCError_def)
qed

text \<open>
  C5 fails on the code. The code \<open>-32600.5\<close> is outside the set of the five reserved
  codes, so the claim gives it the placeholder message; but it passes the range test
  \<open>code <= -32600 && code >= -32603\<close>, \<open>RPCErrorCode[code]\<close> is \<open>undefined\<close>, and the
  constructor throws a \<open>TypeError\<close> instead of making an error with a message.
\<close>

theorem C5_fractional_code:
  "(-65201 / 2 :: number) \<notin> reservedCodes
   \<and> new_RPCError (-65201 / 2) None JUndefined = Inl TypeError"
  by (simp add: new_RPCError_def notMessage_def RPCErrorCode_name_other reservedCodes_def)

section \<open>Properties of the request pipeline\<close>

lemma fst_after [simp]: "fst (after evs r) = fst r"
  by (simp add: after_def)

lemma snd_after [simp]: "snd (after evs r) = evs @ snd r"
  by (simp add: after_def)

lemma snd_catchBlock [simp]: "snd (catchBlock opts e) = [CallOnError]"
  by (simp add: catchBlock_def split: sum.splits)

lemma fst_catchBlock:
  "fst (catchBlock opts e) = (case hookOr onError opts e of Inl t \<Rightarrow> NeverSettles | Inr e' \<Rightarrow> Rejects e')"
  by (simp add: catchBlock_def split: sum.splits)

lemma requestContext_trace:
  "fst (requestContext pf opts m ps) = Inr ctx \<Longrightarrow> snd (requestContext pf opts m ps) = [CallBeforeFetch]"
  by (auto simp: requestContext_def split: sum.splits option.splits)

lemma request_reaches:
  "fst (requestContext pf opts m ps) = Inr ctx \<Longrightarrow>
   request pf opts fetch' m ps = after [CallBeforeFetch] (executor pf opts fetch' ctx)"
  by (simp add: request_def requestContext_trace)

text \<open>
  C2: for every call where the transport returns an outcome with \<open>ok = false\<close>, the call
  rejects with an \<open>HttpError\<close> carrying that outcome's status and status text, and the
  response body is never parsed in this path, whatever the body is: the events of the
  call are the before-send hook and the transport, and nothing else.
\<close>

theorem C2_http_failure:
  assumes "fst (requestContext pf opts m ps) = Inr ctx"
    and "fetch' (RequestContext.url ctx) (RequestContext.request ctx) = Inr resp"
    and "\<not> ok resp"
  shows "request pf opts fetch' m ps =
           (Rejects (AnHttpError \<lparr>HttpError.status = Response.status resp,
                                  HttpError.statusText = Response.statusText resp\<rparr>),
            [CallBeforeFetch, CallFetch])
         \<and> CallJson \<notin> set (snd (request pf opts fetch' m ps))"
  using assms by (simp add: request_reaches executor_def new_HttpError_def after_def)

lemma plain_context:
  "fst (requestContext examplePlatform plainOptions m ps) =
     Inr \<lparr>RequestContext.url = ''http://localhost/rpc'',
          RequestContext.request = preRequestInit plainOptions (envelope m ps IdNull)\<rparr>"
  by (simp add: requestContext_def generateId_def plainOptions_def examplePlatform_def hookOr_def)

theorem C2_http_failure_witness:
  "\<not> ok (\<lparr>ok = False, Response.status = 500, Response.statusText = ''Internal Server Error'',
          Response.body = PlainText ''oops''\<rparr>)
   \<and> request examplePlatform plainOptions serverErrorTransport ''ping'' [] =
     (Rejects (AnHttpError \<lparr>HttpError.status = 500, HttpError.statusText = ''Internal Server Error''\<rparr>),
      [CallBeforeFetch, CallFetch])"
  using C2_http_failure [OF plain_context, of serverErrorTransport "''ping''" "[]"
     "\<lparr>ok = False, Response.status = 500, Response.statusText = ''Internal Server Error'',
          Response.body = PlainText ''oops''\<rparr>"]
  by (simp add: serverErrorTransport_def)


lemma hookOr_configured:
  "options opts = Some h \<Longrightarrow> k h = Some f \<Longrightarrow> hookOr k opts = f"
  by (simp add: hookOr_def)

lemma hookOr_default:
  "options opts = None \<or> (\<exists>h. options opts = Some h \<and> k h = None) \<Longrightarrow> hookOr k opts = Inr"
  by (auto simp: hookOr_def)

lemma hookOr_plainOptions: "hookOr h plainOptions x = Inr x"
  by (simp add: hookOr_def plainOptions_def)

lemma new_RPCError_returns:
  assumes "c \<in> reservedCodes \<or> \<not> (c \<le> -32600 \<and> c \<ge> -32603) \<or> \<not> notMessage m"
  shows "\<exists>r. new_RPCError c m d = Inr r \<and> code r = c \<and> RPCError.data r = d
       \<and> (\<forall>s. m = Some s \<and> s \<noteq> [] \<longrightarrow> message r = s)"
proof (cases "((c \<le> -32600 \<and> c \<ge> -32603) \<or> c = -32700) \<and> notMessage m")
  case True
  with assms have "c \<in> reservedCodes"
    by (auto simp: reservedCodes_def)
  then obtain name where "RPCErrorCode_name c = Some name"
    by (auto simp: reservedCodes_def RPCErrorCode_name_reserved)
  with True show ?thesis
    by (auto simp: new_RPCError_def notMessage_def)
next
  case False
  then show ?thesis
    by (auto simp: new_RPCError_def)
qed

text \<open>
  When the error field of the parsed body gives an \<open>RPCError\<close>, that error is passed to
  the on-error hook, the on-response hook is not called, and the call rejects with what
  the on-error hook returns: the value of the configured hook, or the \<open>RPCError\<close> itself
  when no hook is configured.
\<close>

lemma rpc_error_through_onError:
  assumes "fst (requestContext pf opts m ps) = Inr ctx"
    and "fetch' (RequestContext.url ctx) (RequestContext.request ctx) = Inr resp"
    and "ok resp"
    and "json pf resp = Inr parsed"
    and "errorOf parsed = Some err"
    and "new_RPCError (code err) (Some (message err)) (RPCError.data err) = Inr rpcError"
  shows "(\<forall>h f. options opts = Some h \<and> onError h = Some f \<longrightarrow>
            request pf opts fetch' m ps =
              ((case f (AnRPCError rpcError) of Inl thrown \<Rightarrow> NeverSettles | Inr e' \<Rightarrow> Rejects e'),
               [CallBeforeFetch, CallFetch, CallJson, CallOnError]))
       \<and> (options opts = None \<or> (\<exists>h. options opts = Some h \<and> onError h = None) \<longrightarrow>
            request pf opts fetch' m ps =
              (Rejects (AnRPCError rpcError), [CallBeforeFetch, CallFetch, CallJson, CallOnError]))"
proof -
  have "executor pf opts fetch' ctx = after [CallFetch, CallJson] (catchBlock opts (AnRPCError rpcError))"
    using assms by (simp add: executor_def)
  then have run: "request pf opts fetch' m ps =
      (fst (catchBlock opts (AnRPCError rpcError)), [CallBeforeFetch, CallFetch, CallJson, CallOnError])"
    using assms(1) by (simp add: request_reaches after_def)
  show ?thesis
  proof (intro conjI allI impI)
    fix h f
    assume "options opts = Some h \<and> onError h = Some f"
    then have "hookOr onError opts = f"
      by (simp add: hookOr_configured)
    with run show "request pf opts fetch' m ps =
        ((case f (AnRPCError rpcError) of Inl thrown \<Rightarrow> NeverSettles | Inr e' \<Rightarrow> Rejects e'),
         [CallBeforeFetch, CallFetch, CallJson, CallOnError])"
      by (simp add: fst_catchBlock)
  next
    assume "options opts = None \<or> (\<exists>h. options opts = Some h \<and> onError h = None)"
    then have "hookOr onError opts = Inr"
      by (rule hookOr_default)
    with run show "request pf opts fetch' m ps =
        (Rejects (AnRPCError rpcError), [CallBeforeFetch, CallFetch, CallJson, CallOnError])"
      by (simp add: fst_catchBlock)
  qed
qed

lemma wrapping_context:
  "fst (requestContext examplePlatform wrappingOptions m ps) =
     Inr \<lparr>RequestContext.url = ''http://localhost/rpc'',
          RequestContext.request = preRequestInit wrappingOptions (envelope m ps (IdNum 7))\<rparr>"
  by (simp add: requestContext_def generateId_def wrappingOptions_def examplePlatform_def hookOr_def)

lemma rpc_error_wrapped_example:
  "request examplePlatform wrappingOptions errorTransport ''ping'' [] =
     (Rejects (OtherError ''wrapped: boom''), [CallBeforeFetch, CallFetch, CallJson, CallOnError])"
proof -
  let ?err = "\<lparr>code = -32000, message = ''boom'', RPCError.data = JNum 7\<rparr>"
  let ?body = "ResponseBody \<lparr>RPCResponse.jsonrpc = ''2.0'', result = JUndefined,
             error = Some ?err, RPCResponse.id' = Some IdNull\<rparr>"
  let ?resp = "\<lparr>ok = True, Response.status = 200, Response.statusText = ''OK'',
          Response.body = Stringified ?body\<rparr>"
  have sent: "errorTransport u init = Inr ?resp" for u init
    by (simp add: errorTransport_def)
  have parsed: "json examplePlatform ?resp = Inr ?body"
    by (simp add: json_def JSON_parse_def RPCResponse_roundtrip_def RPCError_roundtrip_def)
  have built: "new_RPCError (code ?err) (Some (message ?err)) (RPCError.data ?err) = Inr ?err"
    by (simp add: new_RPCError_def notMessage_def)
  have hook: "options wrappingOptions
        = Some \<lparr>beforeFetch = None, onResponse = None, onError = Some wrapError,
                idGenerator = Some (\<lambda>u. Inr (IdNum 7))\<rparr>
      \<and> onError \<lparr>beforeFetch = None, onResponse = None, onError = Some wrapError,
                idGenerator = Some (\<lambda>u. Inr (IdNum 7))\<rparr> = Some wrapError"
    by (simp add: wrappingOptions_def)
  from rpc_error_through_onError [OF wrapping_context sent _ parsed _ built] hook
  show ?thesis
    by simp
qed

text \<open>
  C3 fails on the code, by the defect of C5. The transport returns \<open>ok = true\<close> and the
  parsed body has the populated error field \<open>{code: -32601.5, message: ''}\<close>. The claim
  says the call rejects with an \<open>RPCError\<close> built from that field; but the constructor
  throws a \<open>TypeError\<close>, the \<open>catch\<close> block passes that to the on-error hook, and the call
  rejects with the \<open>TypeError\<close>.
\<close>

theorem C3_fractional_code:
  "new_RPCError (-65203 / 2) (Some []) JUndefined = Inl TypeError
   \<and> request examplePlatform plainOptions fractionalCodeTransport ''ping'' [] =
       (Rejects TypeError, [CallBeforeFetch, CallFetch, CallJson, CallOnError])"
proof -
  have thrown: "new_RPCError (-65203 / 2) (Some []) JUndefined = Inl TypeError"
    by (simp add: new_RPCError_def notMessage_def RPCErrorCode_name_other reservedCodes_def)
  have "executor examplePlatform plainOptions fractionalCodeTransport
          \<lparr>RequestContext.url = ''http://localhost/rpc'',
           RequestContext.request = preRequestInit plainOptions (envelope ''ping'' [] IdNull)\<rparr>
        = (Rejects TypeError, [CallFetch, CallJson, CallOnError])"
    using thrown
    by (simp add: executor_def fractionalCodeTransport_def json_def JSON_parse_def
        RPCResponse_roundtrip_def RPCError_roundtrip_def catchBlock_def hookOr_plainOptions
        after_def)
  with thrown show ?thesis
    by (simp add: request_reaches [OF plain_context] after_def)
qed

section \<open>Order of the hooks\<close>

lemma executor_trace:
  "snd (executor pf opts fetch' ctx) \<in>
     {[CallFetch], [CallFetch, CallOnError], [CallFetch, CallJson, CallOnError],
      [CallFetch, CallJson, CallOnResponse], [CallFetch, CallJson, CallOnResponse, CallOnError]}"
  by (auto simp: executor_def split: sum.splits option.splits)


lemma throwing_context:
  "fst (requestContext examplePlatform throwingResponseOptions m ps) =
     Inr \<lparr>RequestContext.url = ''http://localhost/rpc'',
          RequestContext.request = preRequestInit throwingResponseOptions (envelope m ps IdNull)\<rparr>"
  by (simp add: requestContext_def generateId_def throwingResponseOptions_def examplePlatform_def hookOr_def)

lemma throwing_run:
  "request examplePlatform throwingResponseOptions resultTransport ''ping'' [] =
     (Rejects (OtherError ''in onResponse''),
      [CallBeforeFetch, CallFetch, CallJson, CallOnResponse, CallOnError])"
proof -
  have "executor examplePlatform throwingResponseOptions resultTransport
          \<lparr>RequestContext.url = ''http://localhost/rpc'',
           RequestContext.request = preRequestInit throwingResponseOptions (envelope ''ping'' [] IdNull)\<rparr>
        = (Rejects (OtherError ''in onResponse''), [CallFetch, CallJson, CallOnResponse, CallOnError])"
    by (simp add: executor_def resultTransport_def json_def JSON_parse_def RPCResponse_roundtrip_def
        createMockRPCResponse_def hookOr_def throwingResponseOptions_def catchBlock_def after_def)
  then show ?thesis
    by (simp add: request_reaches [OF throwing_context] after_def)
qed

lemma serverError_run:
  "request examplePlatform plainOptions serverErrorTransport ''ping'' [] =
     (Rejects (AnHttpError \<lparr>HttpError.status = 500, HttpError.statusText = ''Internal Server Error''\<rparr>),
      [CallBeforeFetch, CallFetch])"
  by (simp add: request_reaches [OF plain_context] executor_def serverErrorTransport_def
      new_HttpError_def after_def)

text \<open>
  C4, as stated, fails in two ways. When the transport returns a response with
  \<open>ok = false\<close>, the call rejects at once and neither the on-response hook nor the
  on-error hook runs. When the on-response hook throws, the on-error hook runs after it,
  so both run.
\<close>

theorem C4_counterexample:
  "\<not> hookOrderClaimed (snd (request examplePlatform plainOptions serverErrorTransport ''ping'' []))
   \<and> \<not> hookOrderClaimed (snd (request examplePlatform throwingResponseOptions resultTransport ''ping'' []))"
  by (simp add: serverError_run throwing_run hookOrderClaimed_def)

lemma requestContext_trace_cases:
  "snd (requestContext pf opts m ps) = [] \<or> snd (requestContext pf opts m ps) = [CallBeforeFetch]"
  by (simp add: requestContext_def split: sum.splits option.splits)

lemma request_throws:
  "fst (requestContext pf opts m ps) = Inl e \<Longrightarrow>
   request pf opts fetch' m ps = (Throws e, snd (requestContext pf opts m ps))"
  by (simp add: request_def)

lemma executor_not_ok:
  "fetch' (RequestContext.url ctx) (RequestContext.request ctx) = Inr resp \<Longrightarrow> \<not> ok resp \<Longrightarrow>
   snd (executor pf opts fetch' ctx) = [CallFetch]"
  by (simp add: executor_def)

lemma executor_settles_through_hook:
  assumes "\<forall>resp. fetch' (RequestContext.url ctx) (RequestContext.request ctx) = Inr resp \<longrightarrow> ok resp"
  shows "snd (executor pf opts fetch' ctx) \<in>
     {[CallFetch, CallOnError], [CallFetch, CallJson, CallOnError],
      [CallFetch, CallJson, CallOnResponse], [CallFetch, CallJson, CallOnResponse, CallOnError]}"
  using assms by (auto simp: executor_def split: sum.splits option.splits)

lemma executor_both_hooks:
  assumes "snd (executor pf opts fetch' ctx) = [CallFetch, CallJson, CallOnResponse, CallOnError]"
  shows "\<exists>resp parsed e.
           fetch' (RequestContext.url ctx) (RequestContext.request ctx) = Inr resp \<and> ok resp
         \<and> json pf resp = Inr parsed \<and> errorOf parsed = None
         \<and> hookOr onResponse opts
              \<lparr>rpcResponse = parsed, response = resp, ResponseContext.data = resultOf parsed\<rparr>
             = Inl e"
  using assms by (auto simp: executor_def split: sum.splits option.splits if_splits)

lemma executor_hook_throws:
  assumes "fetch' (RequestContext.url ctx) (RequestContext.request ctx) = Inr resp" and "ok resp"
    and "json pf resp = Inr parsed" and "errorOf parsed = None"
    and "hookOr onResponse opts
              \<lparr>rpcResponse = parsed, response = resp, ResponseContext.data = resultOf parsed\<rparr>
             = Inl e"
  shows "snd (executor pf opts fetch' ctx) = [CallFetch, CallJson, CallOnResponse, CallOnError]"
  using assms by (simp add: executor_def)

text \<open>
  C4, amended: for every call, the before-send hook runs before the transport is invoked,
  and each hook runs at most once per call. After the transport returns a response with
  \<open>ok = false\<close>, neither the on-response hook nor the on-error hook runs. After the
  transport throws or returns a response with \<open>ok = true\<close>, at least one of the
  on-response hook and the on-error hook runs; both run, on-response first, only when the
  on-response hook throws: in this very call, on the response context made from the
  transport's answer.
\<close>

theorem C4_hook_order:
  "(let tr = snd (request pf opts fetch' m ps) in
      (CallFetch \<in> set tr \<longrightarrow> (\<exists>rest. tr = CallBeforeFetch # CallFetch # rest))
    \<and> distinct tr
    \<and> (\<forall>ctx resp. fst (requestContext pf opts m ps) = Inr ctx
          \<and> fetch' (RequestContext.url ctx) (RequestContext.request ctx) = Inr resp \<and> \<not> ok resp
          \<longrightarrow> CallOnResponse \<notin> set tr \<and> CallOnError \<notin> set tr)
    \<and> (\<forall>ctx. fst (requestContext pf opts m ps) = Inr ctx
          \<and> (\<forall>resp. fetch' (RequestContext.url ctx) (RequestContext.request ctx) = Inr resp \<longrightarrow> ok resp)
          \<longrightarrow> CallOnResponse \<in> set tr \<or> CallOnError \<in> set tr)
    \<and> (CallOnResponse \<in> set tr \<and> CallOnError \<in> set tr
          \<longrightarrow> tr = [CallBeforeFetch, CallFetch, CallJson, CallOnResponse, CallOnError])
    \<and> (CallOnResponse \<in> set tr \<and> CallOnError \<in> set tr
          \<longleftrightarrow> (\<exists>ctx resp parsed e.
                 fst (requestContext pf opts m ps) = Inr ctx
               \<and> fetch' (RequestContext.url ctx) (RequestContext.request ctx) = Inr resp \<and> ok resp
               \<and> json pf resp = Inr parsed \<and> errorOf parsed = None
               \<and> hookOr onResponse opts
                    \<lparr>rpcResponse = parsed, response = resp,
                     ResponseContext.data = resultOf parsed\<rparr> = Inl e)))"
proof (cases "fst (requestContext pf opts m ps)")
  case (Inl e)
  then have "snd (request pf opts fetch' m ps) = [] \<or> snd (request pf opts fetch' m ps) = [CallBeforeFetch]"
    using requestContext_trace_cases [of pf opts m ps] by (simp add: request_throws)
  with Inl show ?thesis
    by (auto simp: Let_def)
next
  case (Inr ctx)
  let ?tr = "snd (request pf opts fetch' m ps)"
  let ?threw = "\<exists>c resp parsed e.
                 fst (requestContext pf opts m ps) = Inr c
               \<and> fetch' (RequestContext.url c) (RequestContext.request c) = Inr resp \<and> ok resp
               \<and> json pf resp = Inr parsed \<and> errorOf parsed = None
               \<and> hookOr onResponse opts
                    \<lparr>rpcResponse = parsed, response = resp,
                     ResponseContext.data = resultOf parsed\<rparr> = Inl e"
  have tr: "?tr = CallBeforeFetch # snd (executor pf opts fetch' ctx)"
    using Inr by (simp add: request_reaches)
  have cases: "snd (executor pf opts fetch' ctx) \<in>
     {[CallFetch], [CallFetch, CallOnError], [CallFetch, CallJson, CallOnError],
      [CallFetch, CallJson, CallOnResponse], [CallFetch, CallJson, CallOnResponse, CallOnError]}"
    by (rule executor_trace)
  have order: "CallFetch \<in> set ?tr \<longrightarrow> (\<exists>rest. ?tr = CallBeforeFetch # CallFetch # rest)"
    using cases tr by auto
  have once: "distinct ?tr"
    using cases tr by auto
  have failed: "\<forall>c resp. fst (requestContext pf opts m ps) = Inr c
          \<and> fetch' (RequestContext.url c) (RequestContext.request c) = Inr resp \<and> \<not> ok resp
          \<longrightarrow> CallOnResponse \<notin> set ?tr \<and> CallOnError \<notin> set ?tr"
    using Inr tr by (auto simp: executor_not_ok)
  have settled: "\<forall>c. fst (requestContext pf opts m ps) = Inr c
          \<and> (\<forall>resp. fetch' (RequestContext.url c) (RequestContext.request c) = Inr resp \<longrightarrow> ok resp)
          \<longrightarrow> CallOnResponse \<in> set ?tr \<or> CallOnError \<in> set ?tr"
  proof (intro allI impI)
    fix c
    assume h: "fst (requestContext pf opts m ps) = Inr c
          \<and> (\<forall>resp. fetch' (RequestContext.url c) (RequestContext.request c) = Inr resp \<longrightarrow> ok resp)"
    with Inr have "c = ctx" by simp
    with h have "snd (executor pf opts fetch' ctx) \<in>
       {[CallFetch, CallOnError], [CallFetch, CallJson, CallOnError],
        [CallFetch, CallJson, CallOnResponse], [CallFetch, CallJson, CallOnResponse, CallOnError]}"
      using executor_settles_through_hook [of fetch' ctx pf opts] by blast
    with tr show "CallOnResponse \<in> set ?tr \<or> CallOnError \<in> set ?tr"
      by auto
  qed
  have both: "CallOnResponse \<in> set ?tr \<and> CallOnError \<in> set ?tr
          \<longrightarrow> ?tr = [CallBeforeFetch, CallFetch, CallJson, CallOnResponse, CallOnError]"
    using cases tr by auto
  have threw: "CallOnResponse \<in> set ?tr \<and> CallOnError \<in> set ?tr \<longleftrightarrow> ?threw"
  proof
    assume "CallOnResponse \<in> set ?tr \<and> CallOnError \<in> set ?tr"
    with cases tr have "snd (executor pf opts fetch' ctx)
        = [CallFetch, CallJson, CallOnResponse, CallOnError]"
      by auto
    from executor_both_hooks [OF this] Inr show ?threw
      by blast
  next
    assume ?threw
    then obtain c resp parsed e where h:
      "fst (requestContext pf opts m ps) = Inr c"
      "fetch' (RequestContext.url c) (RequestContext.request c) = Inr resp" "ok resp"
      "json pf resp = Inr parsed" "errorOf parsed = None"
      "hookOr onResponse opts
          \<lparr>rpcResponse = parsed, response = resp, ResponseContext.data = resultOf parsed\<rparr> = Inl e"
      by blast
    with Inr have "c = ctx" by simp
    with h have "snd (executor pf opts fetch' ctx)
        = [CallFetch, CallJson, CallOnResponse, CallOnError]"
      using executor_hook_throws [of fetch' ctx resp pf parsed opts e] by simp
    with tr show "CallOnResponse \<in> set ?tr \<and> CallOnError \<in> set ?tr"
      by simp
  qed
  from order once failed settled both threw show ?thesis
    unfolding Let_def by blast
qed

theorem C4_hook_order_witness:
  "CallFetch \<in> set (snd (request examplePlatform throwingResponseOptions resultTransport ''ping'' []))
   \<and> CallOnResponse \<in> set (snd (request examplePlatform throwingResponseOptions resultTransport ''ping'' []))
   \<and> CallOnError \<in> set (snd (request examplePlatform throwingResponseOptions resultTransport ''ping'' []))
   \<and> distinct (snd (request examplePlatform throwingResponseOptions resultTransport ''ping'' []))
   \<and> (\<exists>ctx resp parsed e.
         fst (requestContext examplePlatform throwingResponseOptions ''ping'' []) = Inr ctx
       \<and> resultTransport (RequestContext.url ctx) (RequestContext.request ctx) = Inr resp \<and> ok resp
       \<and> json examplePlatform resp = Inr parsed \<and> errorOf parsed = None
       \<and> hookOr onResponse throwingResponseOptions
            \<lparr>rpcResponse = parsed, response = resp, ResponseContext.data = resultOf parsed\<rparr>
           = Inl e)"
  using C4_hook_order [of examplePlatform throwingResponseOptions resultTransport "''ping''" "[]"]
  by (simp add: throwing_run Let_def)

section \<open>Failures and the on-error hook\<close>

lemma throwingBefore_run:
  "request examplePlatform throwingBeforeOptions resultTransport ''ping'' [] =
     (Throws (OtherError ''in beforeFetch''), [CallBeforeFetch])"
  by (simp add: request_def requestContext_def generateId_def throwingBeforeOptions_def
      examplePlatform_def hookOr_def)

text \<open>
  C9, as stated, fails for the before-send hook: it is called before the promise is
  made, outside the \<open>try\<close>, so what it throws leaves \<open>request\<close> itself; the on-error
  hook is not called and the call does not reject with that hook's return value.
\<close>

theorem C9_counterexample:
  "hookOr beforeFetch throwingBeforeOptions
      \<lparr>RequestContext.url = ''http://localhost/rpc'',
       RequestContext.request = preRequestInit throwingBeforeOptions (envelope ''ping'' [] IdNull)\<rparr>
     = Inl (OtherError ''in beforeFetch'')
   \<and> hookOr onError throwingBeforeOptions (OtherError ''in beforeFetch'') = Inr (OtherError ''handled'')
   \<and> fst (request examplePlatform throwingBeforeOptions resultTransport ''ping'' [])
       \<noteq> Rejects (OtherError ''handled'')
   \<and> CallOnError \<notin> set (snd (request examplePlatform throwingBeforeOptions resultTransport ''ping'' []))"
  by (simp add: throwingBefore_run) (simp add: hookOr_def throwingBeforeOptions_def)

text \<open>
  C9, amended: for every call in which the on-response hook or the transport invocation
  throws, or the body fails to parse, the thrown value is passed through the on-error
  hook and the call rejects with the hook's return value.
\<close>

theorem C9_failures_through_onError:
  assumes "fst (requestContext pf opts m ps) = Inr ctx"
    and "fetch' (RequestContext.url ctx) (RequestContext.request ctx) = Inl e
         \<or> (\<exists>resp. fetch' (RequestContext.url ctx) (RequestContext.request ctx) = Inr resp \<and> ok resp
               \<and> (json pf resp = Inl e
                   \<or> (\<exists>parsed. json pf resp = Inr parsed \<and> errorOf parsed = None
                         \<and> hookOr onResponse opts
                              \<lparr>rpcResponse = parsed, response = resp,
                               ResponseContext.data = resultOf parsed\<rparr> = Inl e)))"
    and "hookOr onError opts e = Inr e'"
  shows "fst (request pf opts fetch' m ps) = Rejects e'
         \<and> last (snd (request pf opts fetch' m ps)) = CallOnError"
proof -
  have "fst (executor pf opts fetch' ctx) = Rejects e'
        \<and> last (snd (executor pf opts fetch' ctx)) = CallOnError"
    using assms(2,3) by (auto simp: executor_def catchBlock_def after_def)
  moreover have "snd (executor pf opts fetch' ctx) \<noteq> []"
    using executor_trace [of pf opts fetch' ctx] by auto
  ultimately show ?thesis
    using assms(1) by (simp add: request_reaches)
qed

theorem C9_failures_through_onError_witness:
  "fst (request examplePlatform throwingResponseOptions resultTransport ''ping'' [])
       = Rejects (OtherError ''in onResponse'')
   \<and> last (snd (request examplePlatform throwingResponseOptions resultTransport ''ping'' []))
       = CallOnError"
proof -
  let ?resp = "\<lparr>ok = True, Response.status = 200, Response.statusText = ''OK'',
          Response.body = Stringified (ResponseBody (createMockRPCResponse (JNum 1)))\<rparr>"
  have sent: "resultTransport u init = Inr ?resp" for u init
    by (simp add: resultTransport_def)
  have parsed: "json examplePlatform ?resp = Inr (ResponseBody (createMockRPCResponse (JNum 1)))"
    by (simp add: json_def JSON_parse_def RPCResponse_roundtrip_def createMockRPCResponse_def)
  have thrown: "hookOr onResponse throwingResponseOptions c = Inl (OtherError ''in onResponse'')" for c
    by (simp add: hookOr_def throwingResponseOptions_def)
  have handled: "hookOr onError throwingResponseOptions (OtherError ''in onResponse'')
      = Inr (OtherError ''in onResponse'')"
    by (simp add: hookOr_def throwingResponseOptions_def)
  have failure: "resultTransport ''http://localhost/rpc''
          (preRequestInit throwingResponseOptions (envelope ''ping'' [] IdNull))
        = Inl (OtherError ''in onResponse'')
      \<or> (\<exists>resp. resultTransport ''http://localhost/rpc''
              (preRequestInit throwingResponseOptions (envelope ''ping'' [] IdNull)) = Inr resp
            \<and> ok resp
            \<and> (json examplePlatform resp = Inl (OtherError ''in onResponse'')
                \<or> (\<exists>parsed. json examplePlatform resp = Inr parsed \<and> errorOf parsed = None
                      \<and> hookOr onResponse throwingResponseOptions
                           \<lparr>rpcResponse = parsed, response = resp,
                            ResponseContext.data = resultOf parsed\<rparr>
                          = Inl (OtherError ''in onResponse''))))"
    using sent parsed thrown by (simp add: createMockRPCResponse_def)
  show ?thesis
    using C9_failures_through_onError [OF throwing_context _ handled, of resultTransport] failure
    by simp
qed

section \<open>Properties of the mock transport\<close>

lemma reasonPhrase_OK: "reasonPhrase ''OK''" "reasonPhrase []"
  by (simp_all add: reasonPhrase_def)

lemma new_Response_200:
  "reasonPhrase txt \<Longrightarrow>
   new_Response b 200 txt =
     Inr \<lparr>ok = True, Response.status = 200, Response.statusText = txt, Response.body = b\<rparr>"
  by (simp add: new_Response_def)

lemma methodNotFoundResponse_eq:
  "methodNotFoundResponse rpcReq =
     Inr \<lparr>RPCResponse.jsonrpc = ''2.0'', result = JUndefined,
          error = Some \<lparr>code = -32601, message = ''method not found'', RPCError.data = JUndefined\<rparr>,
          RPCResponse.id' = RPCRequest.id' rpcReq\<rparr>"
  by (simp add: methodNotFoundResponse_def new_RPCError_def notMessage_def
      RPCErrorCode_name_reserved humanize_names)

lemma truthyId_iff:
  "truthyId i \<longleftrightarrow> i \<notin> {None, Some IdNull, Some (IdNum 0), Some (IdStr [])}"
  by (cases i rule: truthyId.cases) auto

lemma lookup_registered: "actions name = Some action \<Longrightarrow> lookupAction actions name = Registered action"
  by (simp add: lookupAction_def)

lemma lookup_not_found:
  "actions name = None \<Longrightarrow> name \<notin> set ObjectPrototype_members \<Longrightarrow> lookupAction actions name = NotFound"
  by (simp add: lookupAction_def)

lemma lookup_inherited:
  "actions name = None \<Longrightarrow> name \<in> set ObjectPrototype_members \<Longrightarrow> lookupAction actions name = Inherited name"
  by (simp add: lookupAction_def)

lemma parse_sent_envelope:
  "parseRequestBody pf (preRequestInit opts env) = Inr (RPCRequest_roundtrip env)"
  by (simp add: parseRequestBody_def preRequestInit_def JSON_parse_def)

lemma roundtrip_envelope:
  "RPCRequest.method (RPCRequest_roundtrip (envelope m ps i)) = m"
  "RPCRequest.id' (RPCRequest_roundtrip (envelope m ps i)) = Some i"
  by (simp_all add: RPCRequest_roundtrip_def envelope_def)

lemma requestContext_no_hook:
  assumes "generateId opts = Inr i"
    and "new_URL pf (RPCFetchOptions.url opts) = Some u"
    and "\<forall>c. hookOr beforeFetch opts c = Inr c"
  shows "fst (requestContext pf opts m ps) =
     Inr \<lparr>RequestContext.url = u, RequestContext.request = preRequestInit opts (envelope m ps i)\<rparr>"
  using assms by (simp add: requestContext_def)

text \<open>
  C7: for every invocation of the mock transport whose registered handler returns an
  \<open>RPCResponse\<close>, the mock answers with status 200 and the handler's response as body;
  if the id of the decoded request is truthy, that id is stamped onto the response,
  overwriting the id the handler set; if it is falsy (absent, \<open>null\<close>, \<open>0\<close> or the
  empty string), the id of the handler's response is left unchanged.
\<close>

theorem C7_stamp_id:
  assumes "parseRequestBody pf init = Inr rpcReq"
    and "actions (RPCRequest.method rpcReq) = Some action"
    and "action rpcReq init = Inr (ReturnsResponse resp)"
  shows "createMockFetch pf actions u init =
           Inr \<lparr>ok = True, Response.status = 200, Response.statusText = ''OK'',
                Response.body = Stringified (ResponseBody
                  (if RPCRequest.id' rpcReq \<in> {None, Some IdNull, Some (IdNum 0), Some (IdStr [])}
                   then resp
                   else resp\<lparr>RPCResponse.id' := RPCRequest.id' rpcReq\<rparr>))\<rparr>"
  using assms
  by (simp add: createMockFetch_def lookup_registered stampId_def truthyId_iff new_Response_200
      reasonPhrase_OK)

theorem C7_stamp_id_witness:
  "createMockFetch examplePlatform echoActions ''http://localhost/rpc''
        (preRequestInit plainOptions (envelope ''echo'' [] (IdNum 5))) =
           Inr \<lparr>ok = True, Response.status = 200, Response.statusText = ''OK'',
                Response.body = Stringified (ResponseBody
                  \<lparr>RPCResponse.jsonrpc = ''2.0'', result = JObj [(''x'', JNum 1)], error = None,
                   RPCResponse.id' = Some (IdNum 5)\<rparr>)\<rparr>
   \<and> createMockFetch examplePlatform echoActions ''http://localhost/rpc''
        (preRequestInit plainOptions (envelope ''echo'' [] (IdNum 0))) =
           Inr \<lparr>ok = True, Response.status = 200, Response.statusText = ''OK'',
                Response.body = Stringified (ResponseBody
                  \<lparr>RPCResponse.jsonrpc = ''2.0'', result = JObj [(''x'', JNum 1)], error = None,
                   RPCResponse.id' = Some IdNull\<rparr>)\<rparr>"
proof -
  let ?echo = "\<lambda>(rpcReq :: RPCRequest) (init :: RequestInit).
      (Inr (ReturnsResponse (createMockRPCResponse (JObj [(''x'', JNum 1)]))) :: Error + ActionResult)"
  have registered: "echoActions (RPCRequest.method (RPCRequest_roundtrip (envelope ''echo'' [] i)))
      = Some ?echo" for i
    by (simp add: roundtrip_envelope echoActions_def)
  have stamped: "createMockFetch examplePlatform echoActions ''http://localhost/rpc''
        (preRequestInit plainOptions (envelope ''echo'' [] (IdNum 5))) =
           Inr \<lparr>ok = True, Response.status = 200, Response.statusText = ''OK'',
                Response.body = Stringified (ResponseBody
                  \<lparr>RPCResponse.jsonrpc = ''2.0'', result = JObj [(''x'', JNum 1)], error = None,
                   RPCResponse.id' = Some (IdNum 5)\<rparr>)\<rparr>"
    using C7_stamp_id [where pf = examplePlatform and actions = echoActions
        and u = "''http://localhost/rpc''" and action = ?echo
        and init = "preRequestInit plainOptions (envelope ''echo'' [] (IdNum 5))"
        and rpcReq = "RPCRequest_roundtrip (envelope ''echo'' [] (IdNum 5))"
        and resp = "createMockRPCResponse (JObj [(''x'', JNum 1)])",
        OF parse_sent_envelope registered refl]
    by (simp add: roundtrip_envelope createMockRPCResponse_def)
  have kept: "createMockFetch examplePlatform echoActions ''http://localhost/rpc''
        (preRequestInit plainOptions (envelope ''echo'' [] (IdNum 0))) =
           Inr \<lparr>ok = True, Response.status = 200, Response.statusText = ''OK'',
                Response.body = Stringified (ResponseBody
                  \<lparr>RPCResponse.jsonrpc = ''2.0'', result = JObj [(''x'', JNum 1)], error = None,
                   RPCResponse.id' = Some IdNull\<rparr>)\<rparr>"
    using C7_stamp_id [where pf = examplePlatform and actions = echoActions
        and u = "''http://localhost/rpc''" and action = ?echo
        and init = "preRequestInit plainOptions (envelope ''echo'' [] (IdNum 0))"
        and rpcReq = "RPCRequest_roundtrip (envelope ''echo'' [] (IdNum 0))"
        and resp = "createMockRPCResponse (JObj [(''x'', JNum 1)])",
        OF parse_sent_envelope registered refl]
    by (simp add: roundtrip_envelope createMockRPCResponse_def)
  from stamped kept show ?thesis ..
qed

text \<open>
  For a method that is found neither among the registered handlers nor in
  \<open>Object.prototype\<close>, the mock answers as the specification says: status 200 with an
  error response of code \<open>-32601\<close> that carries the id the call generated, and the call
  rejects with what the on-error hook makes of the \<open>RPCError\<close> of that code.
\<close>

lemma method_not_found:
  assumes "generateId opts = Inr i"
    and "new_URL pf (RPCFetchOptions.url opts) = Some u"
    and "\<forall>c. hookOr beforeFetch opts c = Inr c"
    and "actions m = None"
    and "m \<notin> set ObjectPrototype_members"
  shows "createMockFetch pf actions u (preRequestInit opts (envelope m ps i)) =
           Inr \<lparr>ok = True, Response.status = 200, Response.statusText = [],
                Response.body = Stringified (ResponseBody
                  \<lparr>RPCResponse.jsonrpc = ''2.0'', result = JUndefined,
                   error = Some \<lparr>code = -32601, message = ''method not found'',
                                 RPCError.data = JUndefined\<rparr>,
                   RPCResponse.id' = Some i\<rparr>)\<rparr>
         \<and> (\<forall>h f. options opts = Some h \<and> onError h = Some f \<longrightarrow>
               request pf opts (createMockFetch pf actions) m ps =
                 ((case f (AnRPCError \<lparr>code = -32601, message = ''method not found'',
                                       RPCError.data = JUndefined\<rparr>) of
                     Inl thrown \<Rightarrow> NeverSettles
                   | Inr e' \<Rightarrow> Rejects e'),
                  [CallBeforeFetch, CallFetch, CallJson, CallOnError]))
         \<and> (options opts = None \<or> (\<exists>h. options opts = Some h \<and> onError h = None) \<longrightarrow>
               request pf opts (createMockFetch pf actions) m ps =
                 (Rejects (AnRPCError \<lparr>code = -32601, message = ''method not found'',
                                       RPCError.data = JUndefined\<rparr>),
                  [CallBeforeFetch, CallFetch, CallJson, CallOnError]))"
proof -
  let ?err = "\<lparr>code = -32601, message = ''method not found'', RPCError.data = JUndefined\<rparr>"
  let ?body = "ResponseBody \<lparr>RPCResponse.jsonrpc = ''2.0'', result = JUndefined,
                   error = Some ?err, RPCResponse.id' = Some i\<rparr>"
  let ?resp = "\<lparr>ok = True, Response.status = 200, Response.statusText = [],
                Response.body = Stringified ?body\<rparr>"
  let ?ctx = "\<lparr>RequestContext.url = u, RequestContext.request = preRequestInit opts (envelope m ps i)\<rparr>"
  have ctx: "fst (requestContext pf opts m ps) = Inr ?ctx"
    using assms(1-3) by (rule requestContext_no_hook)
  have sent: "createMockFetch pf actions u (preRequestInit opts (envelope m ps i)) = Inr ?resp"
    using assms(4,5)
    by (simp add: createMockFetch_def parse_sent_envelope roundtrip_envelope lookup_not_found
        methodNotFoundResponse_eq new_Response_200 reasonPhrase_OK)
  then have sent': "createMockFetch pf actions (RequestContext.url ?ctx) (RequestContext.request ?ctx)
      = Inr ?resp"
    by simp
  have parsed: "json pf ?resp = Inr ?body"
    by (simp add: json_def JSON_parse_def RPCResponse_roundtrip_def RPCError_roundtrip_def)
  have built: "new_RPCError (code ?err) (Some (message ?err)) (RPCError.data ?err) = Inr ?err"
    by (simp add: new_RPCError_def notMessage_def)
  have through:
    "(\<forall>h f. options opts = Some h \<and> onError h = Some f \<longrightarrow>
               request pf opts (createMockFetch pf actions) m ps =
                 ((case f (AnRPCError ?err) of
                     Inl thrown \<Rightarrow> NeverSettles
                   | Inr e' \<Rightarrow> Rejects e'),
                  [CallBeforeFetch, CallFetch, CallJson, CallOnError]))
         \<and> (options opts = None \<or> (\<exists>h. options opts = Some h \<and> onError h = None) \<longrightarrow>
               request pf opts (createMockFetch pf actions) m ps =
                 (Rejects (AnRPCError ?err),
                  [CallBeforeFetch, CallFetch, CallJson, CallOnError]))"
    by (rule rpc_error_through_onError [where pf = pf and opts = opts and m = m and ps = ps
          and fetch' = "createMockFetch pf actions" and ctx = ?ctx and resp = ?resp
          and parsed = ?body and err = ?err and rpcError = ?err,
          OF ctx sent' _ parsed _ built]) simp_all
  from sent through show ?thesis
    by (rule conjI)
qed

text \<open>
  C6 fails on the code. The table \<open>{echo: f}\<close> has no registered handler for the method
  \<open>toString\<close>, but \<open>actions['toString']\<close> finds \<open>Object.prototype.toString\<close>, which is truthy,
  so the code calls it as if it were the handler. The mock answers with status 200 and
  the body \<open>"[object Undefined]"\<close>, which is no error response, and the call resolves
  with \<open>data\<close> undefined. The claim says the body is an error response of code \<open>-32601\<close>
  and the call rejects.
\<close>

theorem C6_inherited_member:
  "echoActions ''toString'' = None
   \<and> createMockFetch examplePlatform echoActions ''http://localhost/rpc''
        (preRequestInit plainOptions (envelope ''toString'' [] IdNull)) =
           Inr \<lparr>ok = True, Response.status = 200, Response.statusText = ''OK'',
                Response.body = Stringified (StringBody ''[object Undefined]'')\<rparr>
   \<and> request examplePlatform plainOptions (createMockFetch examplePlatform echoActions)
        ''toString'' [] =
       (Resolves \<lparr>rpcResponse = StringBody ''[object Undefined]'',
                  response = \<lparr>ok = True, Response.status = 200, Response.statusText = ''OK'',
                               Response.body = Stringified (StringBody ''[object Undefined]'')\<rparr>,
                  ResponseContext.data = JUndefined\<rparr>,
        [CallBeforeFetch, CallFetch, CallJson, CallOnResponse])"
proof -
  let ?resp = "\<lparr>ok = True, Response.status = 200, Response.statusText = ''OK'',
                Response.body = Stringified (StringBody ''[object Undefined]'')\<rparr>"
  have absent: "echoActions ''toString'' = None"
    by (simp add: echoActions_def)
  then have found: "lookupAction echoActions ''toString'' = Inherited ''toString''"
    by (simp add: lookup_inherited ObjectPrototype_members_def)
  have sent: "createMockFetch examplePlatform echoActions ''http://localhost/rpc''
        (preRequestInit plainOptions (envelope ''toString'' [] IdNull)) = Inr ?resp"
    using found
    by (simp add: createMockFetch_def parse_sent_envelope roundtrip_envelope callInherited_def
        new_Response_200 reasonPhrase_OK)
  have parsed: "json examplePlatform ?resp = Inr (StringBody ''[object Undefined]'')"
    by (simp add: json_def JSON_parse_def)
  have "executor examplePlatform plainOptions (createMockFetch examplePlatform echoActions)
          \<lparr>RequestContext.url = ''http://localhost/rpc'',
           RequestContext.request = preRequestInit plainOptions (envelope ''toString'' [] IdNull)\<rparr>
        = (Resolves \<lparr>rpcResponse = StringBody ''[object Undefined]'', response = ?resp,
                      ResponseContext.data = JUndefined\<rparr>,
           [CallFetch, CallJson, CallOnResponse])"
    using sent parsed by (simp add: executor_def hookOr_plainOptions)
  with absent sent show ?thesis
    by (simp add: request_reaches [OF plain_context] after_def)
qed

text \<open>
  C8: round trip. A call with method \<open>echo\<close> and the single argument \<open>{x: 1}\<close>, sent
  without before-send and on-response hooks through a mock transport whose handler for
  \<open>echo\<close> returns \<open>createMockRPCResponse({x: 1})\<close>, resolves with a response context
  whose \<open>data\<close> is \<open>{x: 1}\<close>.
\<close>

theorem C8_echo_round_trip:
  assumes "generateId opts = Inr i"
    and "new_URL pf (RPCFetchOptions.url opts) = Some u"
    and "\<forall>c. hookOr beforeFetch opts c = Inr c"
    and "\<forall>c. hookOr onResponse opts c = Inr c"
    and "actions ''echo'' = Some action"
    and "\<forall>rpcReq init. action rpcReq init
            = Inr (ReturnsResponse (createMockRPCResponse (JObj [(''x'', JNum 1)])))"
  shows "\<exists>c. request pf opts (createMockFetch pf actions) ''echo'' [JObj [(''x'', JNum 1)]]
               = (Resolves c, [CallBeforeFetch, CallFetch, CallJson, CallOnResponse])
             \<and> ResponseContext.data c = JObj [(''x'', JNum 1)]"
proof -
  let ?env = "envelope ''echo'' [JObj [(''x'', JNum 1)]] i"
  let ?ctx = "\<lparr>RequestContext.url = u, RequestContext.request = preRequestInit opts ?env\<rparr>"
  let ?answer = "stampId (RPCRequest_roundtrip ?env) (createMockRPCResponse (JObj [(''x'', JNum 1)]))"
  let ?resp = "\<lparr>ok = True, Response.status = 200, Response.statusText = ''OK'',
                Response.body = Stringified (ResponseBody ?answer)\<rparr>"
  have ctx: "fst (requestContext pf opts ''echo'' [JObj [(''x'', JNum 1)]]) = Inr ?ctx"
    using assms(1-3) by (rule requestContext_no_hook)
  have sent: "createMockFetch pf actions u (preRequestInit opts ?env) = Inr ?resp"
    using assms(5,6)
    by (simp add: createMockFetch_def parse_sent_envelope roundtrip_envelope lookup_registered
        new_Response_200 reasonPhrase_OK)
  have answer: "result ?answer = JObj [(''x'', JNum 1)]" "error ?answer = None"
    by (simp_all add: stampId_def createMockRPCResponse_def)
  have parsed: "json pf ?resp = Inr (ResponseBody (RPCResponse_roundtrip ?answer))"
    by (simp add: json_def JSON_parse_def)
  have decoded: "result (RPCResponse_roundtrip ?answer) = JObj [(''x'', JNum 1)]"
      "error (RPCResponse_roundtrip ?answer) = None"
    using answer by (simp_all add: RPCResponse_roundtrip_def)
  have "executor pf opts (createMockFetch pf actions) ?ctx =
      (Resolves \<lparr>rpcResponse = ResponseBody (RPCResponse_roundtrip ?answer), response = ?resp,
                 ResponseContext.data = JObj [(''x'', JNum 1)]\<rparr>,
       [CallFetch, CallJson, CallOnResponse])"
    using sent parsed decoded assms(4) by (simp add: executor_def)
  with ctx show ?thesis
    by (simp add: request_reaches after_def)
qed

theorem C8_echo_round_trip_witness:
  "\<exists>c. request examplePlatform plainOptions (createMockFetch examplePlatform echoActions)
          ''echo'' [JObj [(''x'', JNum 1)]]
        = (Resolves c, [CallBeforeFetch, CallFetch, CallJson, CallOnResponse])
      \<and> ResponseContext.data c = JObj [(''x'', JNum 1)]"
proof -
  have id: "generateId plainOptions = Inr IdNull"
    by (simp add: generateId_def plainOptions_def)
  have url: "new_URL examplePlatform (RPCFetchOptions.url plainOptions) = Some ''http://localhost/rpc''"
    by (simp add: examplePlatform_def plainOptions_def)
  have before: "\<forall>c. hookOr beforeFetch plainOptions c = Inr c"
    by (simp add: hookOr_plainOptions)
  have after: "\<forall>c. hookOr onResponse plainOptions c = Inr c"
    by (simp add: hookOr_plainOptions)
  have registered: "echoActions ''echo''
      = Some (\<lambda>rpcReq init. Inr (ReturnsResponse (createMockRPCResponse (JObj [(''x'', JNum 1)]))))"
    by (simp add: echoActions_def)
  show ?thesis
    using C8_echo_round_trip [where pf = examplePlatform and opts = plainOptions
        and actions = echoActions and i = IdNull and u = "''http://localhost/rpc''"
        and action = "\<lambda>rpcReq init.
          Inr (ReturnsResponse (createMockRPCResponse (JObj [(''x'', JNum 1)])))",
        OF id url before after registered]
    by simp
qed





end
